theory Spec2Isabelle
  imports Main "HOL-Library.Word"
begin

section \<open>DockaCord: container events forwarded to a chat webhook\<close>

text \<open>
  A shallow embedding of the two Go sources of the repository: \<^verbatim>\<open>main.go\<close>, which
  classifies an action through three global lookup maps, and the earlier variant of the
  same program, which scans the configured slices. Names follow the Go source; what the
  earlier variant defines differently carries the suffix \<open>_part0\<close>.
\<close>

subsection \<open>Configuration\<close>

text \<open>\<^verbatim>\<open>type Config struct\<close> and \<^verbatim>\<open>var defaultConfig\<close>, identical in both sources.\<close>

record Config =
  Webhook :: string
  Error :: "string list"
  Warning :: "string list"
  Info :: "string list"

definition defaultConfig :: Config where
  "defaultConfig =
     \<lparr>Webhook = ''discord-webhook-url'',
      Error = [''die''],
      Warning = [''stop''],
      Info = [''start'']\<rparr>"

subsection \<open>Events of the container runtime\<close>

text \<open>
  The fields of \<^verbatim>\<open>events.Message\<close> that the program reads. \<^verbatim>\<open>Time\<close> is an
  \<^verbatim>\<open>int64\<close>; \<^verbatim>\<open>Attributes\<close> is a \<^verbatim>\<open>map[string]string\<close>.
\<close>

record events_Actor =
  Attributes :: "string \<rightharpoonup> string"

record events_Message =
  Type :: string
  Action :: string
  Actor :: events_Actor
  Time :: "64 word"

definition ContainerEventType :: string where
  "ContainerEventType = ''container''"

text \<open>Indexing a Go map: a missing key reads as the zero value of the element type.\<close>

definition index_string :: "(string \<rightharpoonup> string) \<Rightarrow> string \<Rightarrow> string" where
  "index_string m k = (case m k of None \<Rightarrow> [] | Some v \<Rightarrow> v)"

definition index_bool :: "(string \<rightharpoonup> bool) \<Rightarrow> string \<Rightarrow> bool" where
  "index_bool m k = (case m k of None \<Rightarrow> False | Some b \<Rightarrow> b)"

subsection \<open>Classifier of \<^verbatim>\<open>main.go\<close>: global lookup maps\<close>

text \<open>
  The three package-level maps are the state that \<^verbatim>\<open>init\<close> creates,
  \<^verbatim>\<open>populateActionMaps\<close> writes and \<^verbatim>\<open>getEventLevel\<close> reads; the model passes
  them explicitly.
\<close>

record action_maps =
  errorActions :: "string \<rightharpoonup> bool"
  warnActions :: "string \<rightharpoonup> bool"
  infoActions :: "string \<rightharpoonup> bool"

definition init :: action_maps where
  "init = \<lparr>errorActions = Map.empty, warnActions = Map.empty, infoActions = Map.empty\<rparr>"

text \<open>The loop \<^verbatim>\<open>for _, a := range xs { m[a] = true }\<close>.\<close>

fun range_set_true :: "string list \<Rightarrow> (string \<rightharpoonup> bool) \<Rightarrow> (string \<rightharpoonup> bool)" where
  "range_set_true [] m = m"
| "range_set_true (a # as) m = range_set_true as (m(a \<mapsto> True))"

definition populateActionMaps :: "Config \<Rightarrow> action_maps \<Rightarrow> action_maps" where
  "populateActionMaps cfg g =
     (let g1 = g\<lparr>errorActions := range_set_true (Error cfg) (errorActions g)\<rparr>;
          g2 = g1\<lparr>warnActions := range_set_true (Warning cfg) (warnActions g1)\<rparr>;
          g3 = g2\<lparr>infoActions := range_set_true (Info cfg) (infoActions g2)\<rparr>
      in g3)"

definition getEventLevel :: "action_maps \<Rightarrow> string \<Rightarrow> string" where
  "getEventLevel g action =
     (if index_bool (errorActions g) action then ''error''
      else if index_bool (warnActions g) action then ''warning''
      else if index_bool (infoActions g) action then ''info''
      else [])"

subsection \<open>Classifier of the earlier variant: slice scans\<close>

fun inSlice :: "string \<Rightarrow> string list \<Rightarrow> bool" where
  "inSlice action [] = False"
| "inSlice action (a # as) = (if a = action then True else inSlice action as)"

definition getEventLevel_part0 :: "string \<Rightarrow> Config \<Rightarrow> string" where
  "getEventLevel_part0 action cfg =
     (if inSlice action (Error cfg) then ''error''
      else if inSlice action (Warning cfg) then ''warning''
      else if inSlice action (Info cfg) then ''info''
      else [])"

subsection \<open>Colour of a level\<close>

definition getColor :: "string \<Rightarrow> int" where
  "getColor level =
     (if level = ''warning'' then 16776960
      else if level = ''error'' then 16711680
      else 3066993)"

subsection \<open>Formatting\<close>

text \<open>
  The verb \<^verbatim>\<open>%d\<close> of \<^verbatim>\<open>fmt.Sprintf\<close> on a signed integer: decimal digits, most
  significant first, with a leading minus sign for a negative value.
\<close>

definition digit_char :: "nat \<Rightarrow> char" where
  "digit_char d = ''0123456789'' ! d"

fun digits :: "nat \<Rightarrow> string" where
  "digits n =
     (if n < 10 then [digit_char n]
      else digits (n div 10) @ [digit_char (n mod 10)])"

declare digits.simps [simp del]

definition fmt_d :: "int \<Rightarrow> string" where
  "fmt_d i = (if i < 0 then CHR ''-'' # digits (nat (- i)) else digits (nat i))"

text \<open>
  \<^verbatim>\<open>strings.ToUpper\<close>: on a string of ASCII bytes only, each of \<open>a\<close> to \<open>z\<close> moves
  down by 32 and every other byte stays. On any other string Go maps each rune through
  the Unicode case tables, which are not part of this repository: that mapping is the
  parameter \<open>unicode_upper\<close>.
\<close>

definition upper_byte :: "char \<Rightarrow> char" where
  "upper_byte c =
     (let n = (of_char c :: nat) in if 97 \<le> n \<and> n \<le> 122 then char_of (n - 32) else c)"

definition strings_ToUpper :: "(string \<Rightarrow> string) \<Rightarrow> string \<Rightarrow> string" where
  "strings_ToUpper unicode_upper s =
     (if list_all (\<lambda>c. (of_char c :: nat) < 128) s then map upper_byte s
      else unicode_upper s)"

subsection \<open>Notification payload\<close>

text \<open>
  The literal \<^verbatim>\<open>map[string]interface{}\<close> that \<^verbatim>\<open>notifyDiscord\<close> builds, as records
  with one field per JSON key (\<open>footer_text\<close> is the key \<^verbatim>\<open>text\<close> of the footer,
  \<open>author_name\<close> the key \<^verbatim>\<open>name\<close> of the author).
\<close>

record embed_footer =
  footer_text :: string

record embed_author =
  author_name :: string
  icon_url :: string

record embed =
  title :: string
  url :: string
  description :: string
  color :: int
  footer :: embed_footer
  author :: embed_author

record payload =
  username :: string
  avatar_url :: string
  embeds :: "embed list"

subsection \<open>The world outside the program\<close>

text \<open>
  Every call that leaves the program is recorded, in order, in a trace: the lines given
  to the logger, the file system calls and the HTTP request. The trace is the state that
  the functions below take and return.
\<close>

datatype effect =
    LogLine string
  | OsStat string
  | OsWriteFile string string nat
  | OsReadFile string
  | is_HttpPost: HttpPost string string string
  | BodyClose

definition http_calls :: "effect list \<Rightarrow> effect list" where
  "http_calls tr = filter is_HttpPost tr"

text \<open>
  An error of package \<^verbatim>\<open>os\<close> with what \<^verbatim>\<open>os.IsNotExist\<close> says of it and its
  message; \<^verbatim>\<open>os.IsNotExist(nil)\<close> is false.
\<close>

datatype os_error = OsError (not_exist: bool) (os_message: string)

definition os_IsNotExist :: "os_error option \<Rightarrow> bool" where
  "os_IsNotExist err = (case err of None \<Rightarrow> False | Some e \<Rightarrow> not_exist e)"

text \<open>
  The fields of \<^verbatim>\<open>http.Response\<close> that the program uses: the status code, and the
  error, if any, that closing the body returns.
\<close>

record http_Response =
  StatusCode :: int
  Body_Close :: "string option"

text \<open>
  The operating system, the JSON library and the HTTP client are not code of this
  repository: they are parameters. Each answer may depend on the trace so far, so that
  a file system or a server that changes over time is covered. An error is the left
  summand and carries its message.
\<close>

record env =
  os_Stat :: "effect list \<Rightarrow> string \<Rightarrow> os_error option"
  os_WriteFile :: "effect list \<Rightarrow> string \<Rightarrow> string \<Rightarrow> nat \<Rightarrow> string option"
  os_ReadFile :: "effect list \<Rightarrow> string \<Rightarrow> string + string"
  json_MarshalIndent :: "Config \<Rightarrow> string + string"
  json_Unmarshal :: "string \<Rightarrow> string + Config"
  json_Marshal :: "payload \<Rightarrow> string + string"
  http_Post :: "effect list \<Rightarrow> string \<Rightarrow> string \<Rightarrow> string \<Rightarrow> string + http_Response"
  unicode_ToUpper :: "string \<Rightarrow> string"

subsection \<open>Rendering and delivery: \<^verbatim>\<open>notifyDiscord\<close> of \<^verbatim>\<open>main.go\<close>\<close>

definition formattedTimeR :: "events_Message \<Rightarrow> string" where
  "formattedTimeR event = ''<t:'' @ fmt_d (sint (Time event)) @ '':R>''"

definition formattedTimeF :: "events_Message \<Rightarrow> string" where
  "formattedTimeF event = ''<t:'' @ fmt_d (sint (Time event)) @ '':F>''"

text \<open>
  The payload literal of \<^verbatim>\<open>notifyDiscord\<close> (lines 128 to 149 of \<^verbatim>\<open>main.go\<close>). The
  footer text starts with the two bytes of the copyright sign in UTF-8.
\<close>

definition notifyDiscord_payload :: "env \<Rightarrow> events_Message \<Rightarrow> string \<Rightarrow> payload" where
  "notifyDiscord_payload env event level =
     \<lparr>username = ''DockaCord'',
      avatar_url = ''https://raw.githubusercontent.com/Lyzev/DockaCord/refs/heads/master/assets/docker-mark-blue.png'',
      embeds =
        [\<lparr>title = ''Docker Event Notification - '' @ strings_ToUpper (unicode_ToUpper env) level,
          url = ''https://lyzev.dev/'',
          description =
            ''**Container**: `'' @ index_string (Attributes (Actor event)) ''name''
            @ ''`\<newline>**Action**: `'' @ Action event
            @ ''`\<newline>**At**: '' @ formattedTimeF event @ '' ('' @ formattedTimeR event @ '')'',
          color = getColor level,
          footer = \<lparr>footer_text = [CHR 0xC2, CHR 0xA9] @ '' 2025 Lyzev.''\<rparr>,
          author =
            \<lparr>author_name = ''Notification Bot'',
             icon_url = ''https://raw.githubusercontent.com/Lyzev/DockaCord/refs/heads/master/assets/docker-mark-blue.png''\<rparr>\<rparr>]\<rparr>"

text \<open>
  \<^verbatim>\<open>notifyDiscord\<close> returns nothing: what it does is the trace it leaves. Its body
  after the payload literal (lines 151 to 177 of \<^verbatim>\<open>main.go\<close>, the same text in the
  earlier variant) is \<open>notifyDiscord_send\<close>. Each \<^verbatim>\<open>return\<close> of the source is a
  branch. The deferred function closes the body after the status line is logged, and
  logs the error of the close, if any.
\<close>

definition notifyDiscord_send :: "env \<Rightarrow> effect list \<Rightarrow> payload \<Rightarrow> string \<Rightarrow> effect list" where
  "notifyDiscord_send env tr p webhookURL =
     (case json_Marshal env p of
        Inl err \<Rightarrow> tr @ [LogLine (''Failed to marshal payload: '' @ err)]
      | Inr payloadBytes \<Rightarrow>
          if webhookURL = [] then tr @ [LogLine ''Missing Discord webhook URL in config'']
          else
            (case http_Post env tr webhookURL ''application/json'' payloadBytes of
               Inl err \<Rightarrow>
                 tr @ [HttpPost webhookURL ''application/json'' payloadBytes,
                       LogLine (''Failed to send webhook: '' @ err)]
             | Inr resp \<Rightarrow>
                 (let tr1 = tr @ [HttpPost webhookURL ''application/json'' payloadBytes];
                      tr2 =
                        (if StatusCode resp \<noteq> 200 \<and> StatusCode resp \<noteq> 204
                         then tr1 @ [LogLine (''Unexpected HTTP status: '' @ fmt_d (StatusCode resp))]
                         else tr1 @ [LogLine ''Successfully sent Discord notification'']);
                      tr3 = tr2 @ [BodyClose]
                  in case Body_Close resp of
                       Some closeErr \<Rightarrow>
                         tr3 @ [LogLine (''Failed to close response body: '' @ closeErr)]
                     | None \<Rightarrow> tr3)))"

definition notifyDiscord :: "env \<Rightarrow> effect list \<Rightarrow> events_Message \<Rightarrow> string \<Rightarrow> string \<Rightarrow> effect list" where
  "notifyDiscord env tr event level webhookURL =
     notifyDiscord_send env tr (notifyDiscord_payload env event level) webhookURL"

subsection \<open>The dispatcher of \<^verbatim>\<open>main.go\<close>\<close>

definition handleEvent :: "env \<Rightarrow> action_maps \<Rightarrow> effect list \<Rightarrow> events_Message \<Rightarrow> Config \<Rightarrow> effect list" where
  "handleEvent env g tr event cfg =
     (let level = getEventLevel g (Action event) in
      if level = [] then tr
      else
        notifyDiscord env
          (tr @ [LogLine (''Event: action='' @ Action event @ '', level='' @ level)])
          event level (Webhook cfg))"

text \<open>
  The two signals that \<^verbatim>\<open>main\<close> registers on \<^verbatim>\<open>signalChan\<close>, with the names that
  \<^verbatim>\<open>%v\<close> prints for them.
\<close>

datatype signal = SIGINT | SIGTERM

fun signal_String :: "signal \<Rightarrow> string" where
  "signal_String SIGINT = ''interrupt''"
| "signal_String SIGTERM = ''terminated''"

text \<open>
  What one \<^verbatim>\<open>select\<close> receives: a message from \<^verbatim>\<open>msgs\<close>, a value from \<^verbatim>\<open>errs\<close>
  (\<open>None\<close> is \<^verbatim>\<open>nil\<close>) or a signal from \<^verbatim>\<open>signalChan\<close>. The order in which the
  channels become ready is the input of the loop.
\<close>

datatype arrival =
    RecvMsg events_Message
  | RecvErr "string option"
  | RecvSignal signal

datatype loop_state = Running | Stopped

text \<open>One pass through the \<^verbatim>\<open>select\<close> of \<^verbatim>\<open>handleDockerEvents\<close>.\<close>

definition select_case :: "env \<Rightarrow> action_maps \<Rightarrow> effect list \<Rightarrow> arrival \<Rightarrow> Config \<Rightarrow> loop_state \<times> effect list" where
  "select_case env g tr a cfg =
     (case a of
        RecvMsg event \<Rightarrow>
          (Running, if Type event = ContainerEventType then handleEvent env g tr event cfg else tr)
      | RecvErr err \<Rightarrow>
          (Running,
           case err of
             Some e \<Rightarrow> tr @ [LogLine (''Error receiving Docker event: '' @ e)]
           | None \<Rightarrow> tr)
      | RecvSignal sig \<Rightarrow>
          (Stopped, tr @ [LogLine (''Received signal '' @ signal_String sig @ '', shutting down'')]))"

text \<open>
  The \<^verbatim>\<open>for\<close> loop over the arrivals. With no arrival left the loop is blocked in
  \<^verbatim>\<open>select\<close>, still \<open>Running\<close>; \<open>Stopped\<close> is the \<^verbatim>\<open>return\<close>.
\<close>

fun handleDockerEvents :: "env \<Rightarrow> action_maps \<Rightarrow> effect list \<Rightarrow> arrival list \<Rightarrow> Config \<Rightarrow> loop_state \<times> effect list" where
  "handleDockerEvents env g tr [] cfg = (Running, tr)"
| "handleDockerEvents env g tr (a # rest) cfg =
     (case select_case env g tr a cfg of
        (Stopped, tr') \<Rightarrow> (Stopped, tr')
      | (Running, tr') \<Rightarrow> handleDockerEvents env g tr' rest cfg)"

subsection \<open>The earlier variant: rendering, delivery and dispatcher\<close>

text \<open>
  The earlier variant differs from \<^verbatim>\<open>main.go\<close> in the avatar and icon addresses of
  the payload and in the classifier that \<^verbatim>\<open>handleEvent\<close> calls.
\<close>

definition notifyDiscord_payload_part0 :: "env \<Rightarrow> events_Message \<Rightarrow> string \<Rightarrow> payload" where
  "notifyDiscord_payload_part0 env event level =
     \<lparr>username = ''DockaCord'',
      avatar_url = ''https://i.imgur.com/zlREvEQ.png'',
      embeds =
        [\<lparr>title = ''Docker Event Notification - '' @ strings_ToUpper (unicode_ToUpper env) level,
          url = ''https://lyzev.dev/'',
          description =
            ''**Container**: `'' @ index_string (Attributes (Actor event)) ''name''
            @ ''`\<newline>**Action**: `'' @ Action event
            @ ''`\<newline>**At**: '' @ formattedTimeF event @ '' ('' @ formattedTimeR event @ '')'',
          color = getColor level,
          footer = \<lparr>footer_text = [CHR 0xC2, CHR 0xA9] @ '' 2025 Lyzev.''\<rparr>,
          author =
            \<lparr>author_name = ''Notification Bot'',
             icon_url = ''https://i.imgur.com/zlREvEQ.png''\<rparr>\<rparr>]\<rparr>"

definition notifyDiscord_part0 :: "env \<Rightarrow> effect list \<Rightarrow> events_Message \<Rightarrow> string \<Rightarrow> string \<Rightarrow> effect list" where
  "notifyDiscord_part0 env tr event level webhookURL =
     notifyDiscord_send env tr (notifyDiscord_payload_part0 env event level) webhookURL"

definition handleEvent_part0 :: "env \<Rightarrow> effect list \<Rightarrow> events_Message \<Rightarrow> Config \<Rightarrow> effect list" where
  "handleEvent_part0 env tr event cfg =
     (let level = getEventLevel_part0 (Action event) cfg in
      if level = [] then tr
      else
        notifyDiscord_part0 env
          (tr @ [LogLine (''Event: action='' @ Action event @ '', level='' @ level)])
          event level (Webhook cfg))"

definition select_case_part0 :: "env \<Rightarrow> effect list \<Rightarrow> arrival \<Rightarrow> Config \<Rightarrow> loop_state \<times> effect list" where
  "select_case_part0 env tr a cfg =
     (case a of
        RecvMsg event \<Rightarrow>
          (Running, if Type event = ContainerEventType then handleEvent_part0 env tr event cfg else tr)
      | RecvErr err \<Rightarrow>
          (Running,
           case err of
             Some e \<Rightarrow> tr @ [LogLine (''Error receiving Docker event: '' @ e)]
           | None \<Rightarrow> tr)
      | RecvSignal sig \<Rightarrow>
          (Stopped, tr @ [LogLine (''Received signal '' @ signal_String sig @ '', shutting down'')]))"

fun handleDockerEvents_part0 :: "env \<Rightarrow> effect list \<Rightarrow> arrival list \<Rightarrow> Config \<Rightarrow> loop_state \<times> effect list" where
  "handleDockerEvents_part0 env tr [] cfg = (Running, tr)"
| "handleDockerEvents_part0 env tr (a # rest) cfg =
     (case select_case_part0 env tr a cfg of
        (Stopped, tr') \<Rightarrow> (Stopped, tr')
      | (Running, tr') \<Rightarrow> handleDockerEvents_part0 env tr' rest cfg)"

subsection \<open>Loading the configuration\<close>

text \<open>
  \<^verbatim>\<open>loadConfig\<close>, the same in both sources. The result is the error message or the
  configuration, with the trace. The error of \<^verbatim>\<open>json.MarshalIndent\<close> is discarded by
  the source (\<^verbatim>\<open>defBytes, _ :=\<close>), which then writes the empty byte slice. The mode
  \<^verbatim>\<open>0644\<close> is 420.
\<close>

definition loadConfig :: "env \<Rightarrow> effect list \<Rightarrow> string \<Rightarrow> (string + Config) \<times> effect list" where
  "loadConfig env tr filename =
     (let err = os_Stat env tr filename;
          tr1 = tr @ [OsStat filename]
      in
        if os_IsNotExist err then
          (let tr2 = tr1 @ [LogLine ''Config file not found, creating default config.json''];
               defBytes = (case json_MarshalIndent env defaultConfig of Inl _ \<Rightarrow> [] | Inr b \<Rightarrow> b);
               writeErr = os_WriteFile env tr2 filename defBytes 420;
               tr3 = tr2 @ [OsWriteFile filename defBytes 420]
           in case writeErr of
                Some e \<Rightarrow> (Inl (''failed to create default config: '' @ e), tr3)
              | None \<Rightarrow> (Inr defaultConfig, tr3))
        else
          (case err of
             Some e \<Rightarrow> (Inl (''cannot stat config file: '' @ os_message e), tr1)
           | None \<Rightarrow>
               (let tr2 = tr1 @ [OsReadFile filename] in
                case os_ReadFile env tr1 filename of
                  Inl e \<Rightarrow> (Inl (''cannot read config file: '' @ e), tr2)
                | Inr configBytes \<Rightarrow>
                    (case json_Unmarshal env configBytes of
                       Inl e \<Rightarrow> (Inl (''invalid JSON in config file: '' @ e), tr2)
                     | Inr cfg \<Rightarrow> (Inr cfg, tr2)))))"

text \<open>The bytes that \<^verbatim>\<open>loadConfig\<close> writes on a first run.\<close>

definition default_file_bytes :: "env \<Rightarrow> string" where
  "default_file_bytes env =
     (case json_MarshalIndent env defaultConfig of Inl _ \<Rightarrow> [] | Inr b \<Rightarrow> b)"

text \<open>The writes to files among the calls of a trace.\<close>

definition file_writes :: "effect list \<Rightarrow> effect list" where
  "file_writes tr = filter (\<lambda>e. case e of OsWriteFile p d m \<Rightarrow> True | _ \<Rightarrow> False) tr"

subsection \<open>Sample inputs\<close>

text \<open>
  A first run in a working directory that accepts the write, with a webhook address that
  the HTTP client refuses; the other samples change single answers of it.
\<close>

definition first_run_env :: env where
  "first_run_env =
     \<lparr>os_Stat = (\<lambda>tr p. Some (OsError True ''no such file or directory'')),
      os_WriteFile = (\<lambda>tr p d m. None),
      os_ReadFile = (\<lambda>tr p. Inl ''no such file or directory''),
      json_MarshalIndent = (\<lambda>c. Inr ''{}''),
      json_Unmarshal = (\<lambda>b. Inl ''unexpected end of JSON input''),
      json_Marshal = (\<lambda>p. Inr ''{}''),
      http_Post = (\<lambda>tr u c b. Inl ''unsupported protocol scheme''),
      unicode_ToUpper = (\<lambda>s. s)\<rparr>"

definition read_only_env :: env where
  "read_only_env = first_run_env\<lparr>os_WriteFile := (\<lambda>tr p d m. Some ''permission denied'')\<rparr>"

definition status_env :: "int \<Rightarrow> env" where
  "status_env code =
     first_run_env\<lparr>http_Post := (\<lambda>tr u c b. Inr \<lparr>StatusCode = code, Body_Close = None\<rparr>)\<rparr>"

definition existing_file_env :: "string + Config \<Rightarrow> env" where
  "existing_file_env parsed =
     first_run_env
       \<lparr>os_Stat := (\<lambda>tr p. None),
        os_ReadFile := (\<lambda>tr p. Inr ''contents''),
        json_Unmarshal := (\<lambda>b. parsed)\<rparr>"

definition stat_denied_env :: env where
  "stat_denied_env =
     first_run_env\<lparr>os_Stat := (\<lambda>tr p. Some (OsError False ''permission denied''))\<rparr>"

definition unreadable_file_env :: env where
  "unreadable_file_env =
     first_run_env
       \<lparr>os_Stat := (\<lambda>tr p. None),
        os_ReadFile := (\<lambda>tr p. Inl ''is a directory'')\<rparr>"

definition die_event :: "string \<Rightarrow> events_Message" where
  "die_event kind =
     \<lparr>Type = kind, Action = ''die'',
      Actor = \<lparr>Attributes = [''name'' \<mapsto> ''web-1'']\<rparr>,
      Time = 1700000000\<rparr>"

section \<open>Properties\<close>

subsection \<open>Membership lemmas shared by the classifier results\<close>

lemma index_bool_range_set_true:
  "index_bool (range_set_true xs m) a = (a \<in> set xs \<or> index_bool m a)"
  by (induction xs arbitrary: m) (auto simp: index_bool_def)

lemma inSlice_iff_member: "inSlice a xs = (a \<in> set xs)"
  by (induction xs) auto

lemma index_bool_empty: "index_bool Map.empty a = False"
  by (simp add: index_bool_def)

lemma populated_errorActions:
  "index_bool (errorActions (populateActionMaps cfg init)) a = (a \<in> set (Error cfg))"
  by (simp add: populateActionMaps_def init_def Let_def index_bool_range_set_true index_bool_empty)

lemma populated_warnActions:
  "index_bool (warnActions (populateActionMaps cfg init)) a = (a \<in> set (Warning cfg))"
  by (simp add: populateActionMaps_def init_def Let_def index_bool_range_set_true index_bool_empty)

lemma populated_infoActions:
  "index_bool (infoActions (populateActionMaps cfg init)) a = (a \<in> set (Info cfg))"
  by (simp add: populateActionMaps_def init_def Let_def index_bool_range_set_true index_bool_empty)

subsection \<open>Classification\<close>

text \<open>
  C1. For every action and every configuration the classifier returns one of the four
  levels \<open>error\<close>, \<open>warning\<close>, \<open>info\<close> and the empty string (no match), chosen by
  first match: \<open>error\<close> when the action is in the error list, else \<open>warning\<close> when it
  is in the warning list, else \<open>info\<close> when it is in the info list, else no match. This
  holds for the map classifier of \<^verbatim>\<open>main.go\<close>, with the maps populated from the
  configuration, and for the slice classifier of the earlier variant.
\<close>

theorem getEventLevel_first_match:
  fixes a :: string and cfg :: Config
  defines "expected \<equiv>
     (if a \<in> set (Error cfg) then ''error''
      else if a \<in> set (Warning cfg) then ''warning''
      else if a \<in> set (Info cfg) then ''info''
      else [])"
  shows "getEventLevel (populateActionMaps cfg init) a = expected
       \<and> getEventLevel_part0 a cfg = expected
       \<and> expected \<in> {''error'', ''warning'', ''info'', []}"
  unfolding expected_def
  by (simp add: getEventLevel_def getEventLevel_part0_def inSlice_iff_member
      populated_errorActions populated_warnActions populated_infoActions)

theorem getEventLevel_first_match_witness:
  "getEventLevel (populateActionMaps defaultConfig init) ''die'' = ''error''
   \<and> getEventLevel_part0 ''die'' defaultConfig = ''error''
   \<and> getEventLevel_part0 ''stop''
        \<lparr>Webhook = [], Error = [''kill'', ''stop''], Warning = [''stop''], Info = [''stop'']\<rparr>
       = ''error''
   \<and> getEventLevel_part0 ''pause'' defaultConfig = []"
  using getEventLevel_first_match [of defaultConfig "''die''"]
    getEventLevel_first_match [of "\<lparr>Webhook = [], Error = [''kill'', ''stop''],
      Warning = [''stop''], Info = [''stop'']\<rparr>" "''stop''"]
    getEventLevel_first_match [of defaultConfig "''pause''"]
  by (simp add: defaultConfig_def)

text \<open>
  C9. The two classifiers agree: for every configuration and every action, the map
  classifier of \<^verbatim>\<open>main.go\<close>, reading the global maps that \<^verbatim>\<open>populateActionMaps\<close>
  filled once from the configuration after \<^verbatim>\<open>init\<close>, returns the level that the
  slice classifier of the earlier variant returns.
\<close>

theorem classifiers_agree:
  "getEventLevel (populateActionMaps cfg init) a = getEventLevel_part0 a cfg"
  by (simp add: getEventLevel_def getEventLevel_part0_def inSlice_iff_member
      populated_errorActions populated_warnActions populated_infoActions)

theorem classifiers_agree_witness:
  "getEventLevel (populateActionMaps defaultConfig init) ''stop'' = ''warning''
   \<and> getEventLevel_part0 ''stop'' defaultConfig = ''warning''"
  using classifiers_agree [of defaultConfig "''stop''"]
  by (simp add: getEventLevel_part0_def defaultConfig_def)

subsection \<open>Colours\<close>

text \<open>
  C6. The mapping from level to colour is total and fixed: \<open>warning\<close> gives the yellow
  constant 16776960, \<open>error\<close> the red constant 16711680, and every other level,
  \<open>info\<close> and the empty level among them, the green constant 3066993.
\<close>

theorem getColor_total:
  "getColor ''warning'' = 16776960
   \<and> getColor ''error'' = 16711680
   \<and> (level \<noteq> ''warning'' \<and> level \<noteq> ''error'' \<longrightarrow> getColor level = 3066993)"
  by (simp add: getColor_def)

theorem getColor_total_witness:
  "getColor ''info'' = 3066993 \<and> getColor [] = 3066993 \<and> getColor ''ERROR'' = 3066993"
  using getColor_total [of "''info''"] getColor_total [of "[]"] getColor_total [of "''ERROR''"]
  by simp

subsection \<open>Evaluation and dispatcher lemmas\<close>

lemma fmt_d_500: "fmt_d 500 = ''500''"
  by (simp add: fmt_d_def digits.simps digit_char_def)

lemma die_level: "getEventLevel (populateActionMaps defaultConfig init) ''die'' = ''error''"
  by (simp add: getEventLevel_def populated_errorActions defaultConfig_def)

lemma select_case_RecvMsg_fst: "fst (select_case env g tr (RecvMsg event) cfg) = Running"
  by (simp add: select_case_def)

lemma select_case_part0_RecvMsg_fst: "fst (select_case_part0 env tr (RecvMsg event) cfg) = Running"
  by (simp add: select_case_part0_def)

subsection \<open>Delivery\<close>

text \<open>
  C2. With an empty webhook address \<^verbatim>\<open>notifyDiscord\<close> issues no HTTP request, whatever
  the payload, the event and the level, in both sources; and for every payload that
  \<^verbatim>\<open>json.Marshal\<close> serialises, the only thing it does is to log the missing webhook
  (what the specification calls failing with a configuration error) and return.
\<close>

theorem notifyDiscord_empty_webhook:
  "http_calls (notifyDiscord_send env tr p []) = http_calls tr
   \<and> http_calls (notifyDiscord env tr event level []) = http_calls tr
   \<and> http_calls (notifyDiscord_part0 env tr event level []) = http_calls tr
   \<and> (json_Marshal env p = Inr b \<longrightarrow>
        notifyDiscord_send env tr p [] = tr @ [LogLine ''Missing Discord webhook URL in config''])"
  by (simp add: notifyDiscord_def notifyDiscord_part0_def notifyDiscord_send_def http_calls_def
      split: sum.split)

theorem notifyDiscord_empty_webhook_witness:
  "notifyDiscord (status_env 200) [] (die_event ''container'') ''error'' []
     = [LogLine ''Missing Discord webhook URL in config'']
   \<and> notifyDiscord_part0 (status_env 200) [] (die_event ''container'') ''error'' []
     = [LogLine ''Missing Discord webhook URL in config'']
   \<and> http_calls (notifyDiscord (status_env 200) [] (die_event ''container'') ''error'' []) = []"
  using notifyDiscord_empty_webhook [of "status_env 200" "[]"
      "notifyDiscord_payload (status_env 200) (die_event ''container'') ''error''"
      "die_event ''container''" "''error''" "''{}''"]
    notifyDiscord_empty_webhook [of "status_env 200" "[]"
      "notifyDiscord_payload_part0 (status_env 200) (die_event ''container'') ''error''"
      "die_event ''container''" "''error''" "''{}''"]
  by (simp add: notifyDiscord_def notifyDiscord_part0_def status_env_def first_run_env_def
      http_calls_def)

text \<open>
  C4. When the HTTP client returns a response, \<^verbatim>\<open>notifyDiscord\<close> logs success exactly
  for the status codes 200 and 204 and logs the unexpected status for every other code;
  in both cases it then closes the body and returns, and the loop that called it is
  still \<open>Running\<close>: the failure is logged and dropped.
\<close>

theorem notifyDiscord_status_outcome:
  assumes "json_Marshal env p = Inr b"
    and "webhookURL \<noteq> []"
    and "http_Post env tr webhookURL ''application/json'' b = Inr resp"
  shows "notifyDiscord_send env tr p webhookURL =
           tr @ [HttpPost webhookURL ''application/json'' b,
                 LogLine (if StatusCode resp = 200 \<or> StatusCode resp = 204
                          then ''Successfully sent Discord notification''
                          else ''Unexpected HTTP status: '' @ fmt_d (StatusCode resp)),
                 BodyClose]
              @ (case Body_Close resp of
                   None \<Rightarrow> []
                 | Some closeErr \<Rightarrow> [LogLine (''Failed to close response body: '' @ closeErr)])
       \<and> (LogLine ''Successfully sent Discord notification''
             \<in> set (drop (length tr) (notifyDiscord_send env tr p webhookURL)))
           = (StatusCode resp = 200 \<or> StatusCode resp = 204)
       \<and> fst (select_case env g tr (RecvMsg event) cfg) = Running
       \<and> fst (select_case_part0 env tr (RecvMsg event) cfg) = Running"
proof -
  have eq: "notifyDiscord_send env tr p webhookURL =
           tr @ [HttpPost webhookURL ''application/json'' b,
                 LogLine (if StatusCode resp = 200 \<or> StatusCode resp = 204
                          then ''Successfully sent Discord notification''
                          else ''Unexpected HTTP status: '' @ fmt_d (StatusCode resp)),
                 BodyClose]
              @ (case Body_Close resp of
                   None \<Rightarrow> []
                 | Some closeErr \<Rightarrow> [LogLine (''Failed to close response body: '' @ closeErr)])"
    using assms by (simp add: notifyDiscord_send_def Let_def split: option.split)
  have iff: "(LogLine ''Successfully sent Discord notification''
             \<in> set (drop (length tr) (notifyDiscord_send env tr p webhookURL)))
           = (StatusCode resp = 200 \<or> StatusCode resp = 204)"
    by (simp add: eq split: option.split)
  show ?thesis
    using eq iff select_case_RecvMsg_fst select_case_part0_RecvMsg_fst by blast
qed

theorem notifyDiscord_status_outcome_witness:
  "notifyDiscord (status_env 500) [] (die_event ''container'') ''error'' ''https://example.invalid/hook''
     = [HttpPost ''https://example.invalid/hook'' ''application/json'' ''{}'',
        LogLine ''Unexpected HTTP status: 500'', BodyClose]
   \<and> notifyDiscord_part0 (status_env 204) [] (die_event ''container'') ''error'' ''https://example.invalid/hook''
     = [HttpPost ''https://example.invalid/hook'' ''application/json'' ''{}'',
        LogLine ''Successfully sent Discord notification'', BodyClose]"
proof -
  have a: "json_Marshal (status_env 500)
      (notifyDiscord_payload (status_env 500) (die_event ''container'') ''error'') = Inr ''{}''"
    by (simp add: status_env_def first_run_env_def)
  have b: "''https://example.invalid/hook'' \<noteq> []" by simp
  have c: "http_Post (status_env 500) [] ''https://example.invalid/hook'' ''application/json'' ''{}''
      = Inr \<lparr>StatusCode = 500, Body_Close = None\<rparr>"
    by (simp add: status_env_def first_run_env_def)
  have a': "json_Marshal (status_env 204)
      (notifyDiscord_payload_part0 (status_env 204) (die_event ''container'') ''error'') = Inr ''{}''"
    by (simp add: status_env_def first_run_env_def)
  have c': "http_Post (status_env 204) [] ''https://example.invalid/hook'' ''application/json'' ''{}''
      = Inr \<lparr>StatusCode = 204, Body_Close = None\<rparr>"
    by (simp add: status_env_def first_run_env_def)
  show ?thesis
    using notifyDiscord_status_outcome [OF a b c] notifyDiscord_status_outcome [OF a' b c']
    by (simp add: notifyDiscord_def notifyDiscord_part0_def fmt_d_500)
qed

text \<open>
  C10. The guard for a missing webhook fires only for the empty string: when the payload
  serialises, the line of the missing webhook is logged if and only if the address is
  empty. The default configuration carries the placeholder \<open>discord-webhook-url\<close>,
  which is not empty, so with it \<^verbatim>\<open>notifyDiscord\<close> calls \<^verbatim>\<open>http.Post\<close> on the
  placeholder; when that call returns an error, the error is logged as a failure to
  send, and the line of the missing webhook is not.
\<close>

theorem default_webhook_passes_guard:
  "Webhook defaultConfig = ''discord-webhook-url''
   \<and> Webhook defaultConfig \<noteq> []
   \<and> (json_Marshal env p = Inr b \<longrightarrow>
        (LogLine ''Missing Discord webhook URL in config''
           \<in> set (drop (length tr) (notifyDiscord_send env tr p webhookURL)))
        = (webhookURL = []))
   \<and> (json_Marshal env p = Inr b \<longrightarrow>
        http_calls (notifyDiscord_send env tr p (Webhook defaultConfig))
        = http_calls tr @ [HttpPost ''discord-webhook-url'' ''application/json'' b])
   \<and> (json_Marshal env p = Inr b
        \<and> http_Post env tr ''discord-webhook-url'' ''application/json'' b = Inl err \<longrightarrow>
        notifyDiscord_send env tr p (Webhook defaultConfig)
        = tr @ [HttpPost ''discord-webhook-url'' ''application/json'' b,
                LogLine (''Failed to send webhook: '' @ err)])"
proof -
  have w: "Webhook defaultConfig = ''discord-webhook-url''"
    by (simp add: defaultConfig_def)
  have guard: "(LogLine ''Missing Discord webhook URL in config''
           \<in> set (drop (length tr) (notifyDiscord_send env tr p webhookURL)))
        = (webhookURL = [])" if "json_Marshal env p = Inr b"
    using that
    by (simp add: notifyDiscord_send_def Let_def split: sum.split option.split)
  have post: "http_calls (notifyDiscord_send env tr p ''discord-webhook-url'')
        = http_calls tr @ [HttpPost ''discord-webhook-url'' ''application/json'' b]"
    if "json_Marshal env p = Inr b"
    using that
    by (simp add: notifyDiscord_send_def Let_def http_calls_def split: sum.split option.split)
  have fail: "notifyDiscord_send env tr p ''discord-webhook-url''
        = tr @ [HttpPost ''discord-webhook-url'' ''application/json'' b,
                LogLine (''Failed to send webhook: '' @ err)]"
    if "json_Marshal env p = Inr b"
      and "http_Post env tr ''discord-webhook-url'' ''application/json'' b = Inl err"
    using that by (simp add: notifyDiscord_send_def)
  show ?thesis
    using guard post fail by (simp add: w)
qed

theorem default_webhook_passes_guard_witness:
  "handleEvent first_run_env (populateActionMaps defaultConfig init) []
      (die_event ''container'') defaultConfig
     = [LogLine ''Event: action=die, level=error'',
        HttpPost ''discord-webhook-url'' ''application/json'' ''{}'',
        LogLine ''Failed to send webhook: unsupported protocol scheme'']
   \<and> fst (loadConfig first_run_env [] ''config.json'') = Inr defaultConfig"
proof -
  let ?p = "notifyDiscord_payload first_run_env (die_event ''container'') ''error''"
  have a: "json_Marshal first_run_env ?p = Inr ''{}''"
    by (simp add: first_run_env_def)
  have c: "http_Post first_run_env [LogLine ''Event: action=die, level=error'']
      ''discord-webhook-url'' ''application/json'' ''{}'' = Inl ''unsupported protocol scheme''"
    by (simp add: first_run_env_def)
  have send: "notifyDiscord_send first_run_env [LogLine ''Event: action=die, level=error''] ?p
        (Webhook defaultConfig)
      = [LogLine ''Event: action=die, level=error'',
         HttpPost ''discord-webhook-url'' ''application/json'' ''{}'',
         LogLine ''Failed to send webhook: unsupported protocol scheme'']"
    using default_webhook_passes_guard [of first_run_env ?p "''{}''"
        "[LogLine ''Event: action=die, level=error'']" "''discord-webhook-url''"
        "''unsupported protocol scheme''"] a c
    by (simp add: defaultConfig_def)
  have load: "fst (loadConfig first_run_env [] ''config.json'') = Inr defaultConfig"
    by (simp add: loadConfig_def first_run_env_def os_IsNotExist_def Let_def)
  show ?thesis
    using send load
    by (simp add: handleEvent_def notifyDiscord_def die_level die_event_def Let_def)
qed

subsection \<open>The event loop\<close>

text \<open>
  C7. While the loop runs, a message whose type is not \<open>container\<close> is dropped: the
  pass through \<^verbatim>\<open>select\<close> leaves the trace as it was and the loop \<open>Running\<close>, for
  every environment, every content of the lookup maps and every configuration, so
  nothing of the classifier, the renderer or the delivery shows, even when the action
  is in a configured list. Likewise a container message that the classifier gives the
  empty level leaves the trace as it was: no log line, no HTTP request.
\<close>

theorem non_container_event_dropped:
  "(Type event \<noteq> ContainerEventType \<longrightarrow>
      select_case env g tr (RecvMsg event) cfg = (Running, tr)
      \<and> select_case_part0 env tr (RecvMsg event) cfg = (Running, tr))
   \<and> (getEventLevel g (Action event) = [] \<longrightarrow>
      handleEvent env g tr event cfg = tr
      \<and> select_case env g tr (RecvMsg event) cfg = (Running, tr))
   \<and> (getEventLevel_part0 (Action event) cfg = [] \<longrightarrow>
      handleEvent_part0 env tr event cfg = tr
      \<and> select_case_part0 env tr (RecvMsg event) cfg = (Running, tr))"
  by (simp add: select_case_def select_case_part0_def handleEvent_def handleEvent_part0_def)

theorem non_container_event_dropped_witness:
  "getEventLevel (populateActionMaps defaultConfig init) (Action (die_event ''network'')) = ''error''
   \<and> select_case (status_env 200) (populateActionMaps defaultConfig init) []
        (RecvMsg (die_event ''network'')) defaultConfig = (Running, [])
   \<and> select_case_part0 (status_env 200) [] (RecvMsg (die_event ''network'')) defaultConfig
       = (Running, [])
   \<and> select_case (status_env 200) (populateActionMaps defaultConfig init) []
        (RecvMsg ((die_event ''container'')\<lparr>Action := ''pause''\<rparr>)) defaultConfig = (Running, [])
   \<and> select_case_part0 (status_env 200) []
        (RecvMsg ((die_event ''container'')\<lparr>Action := ''pause''\<rparr>)) defaultConfig = (Running, [])"
proof -
  have a: "Type (die_event ''network'') \<noteq> ContainerEventType"
    by (simp add: die_event_def ContainerEventType_def)
  have b: "getEventLevel (populateActionMaps defaultConfig init)
      (Action ((die_event ''container'')\<lparr>Action := ''pause''\<rparr>)) = []"
    by (simp add: getEventLevel_def populated_errorActions populated_warnActions
        populated_infoActions defaultConfig_def)
  have c: "getEventLevel_part0 (Action ((die_event ''container'')\<lparr>Action := ''pause''\<rparr>))
      defaultConfig = []"
    by (simp add: getEventLevel_part0_def defaultConfig_def)
  have d: "getEventLevel (populateActionMaps defaultConfig init) (Action (die_event ''network''))
      = ''error''"
    by (simp add: die_event_def die_level)
  show ?thesis
    using a b c d
      non_container_event_dropped [of "die_event ''network''" "status_env 200"
        "populateActionMaps defaultConfig init" "[]" defaultConfig]
      non_container_event_dropped [of "(die_event ''container'')\<lparr>Action := ''pause''\<rparr>"
        "status_env 200" "populateActionMaps defaultConfig init" "[]" defaultConfig]
    by simp
qed

lemma handleDockerEvents_Stopped_iff:
  "fst (handleDockerEvents env g tr arrivals cfg) = Stopped
   \<longleftrightarrow> (\<exists>sig. RecvSignal sig \<in> set arrivals)"
proof (induction arrivals arbitrary: tr)
  case Nil
  then show ?case by simp
next
  case (Cons a rest)
  show ?case
  proof (cases a)
    case (RecvMsg event)
    then show ?thesis using Cons.IH by (simp add: select_case_def)
  next
    case (RecvErr err)
    then show ?thesis using Cons.IH by (simp add: select_case_def)
  next
    case (RecvSignal sig)
    then show ?thesis by (auto simp: select_case_def)
  qed
qed

lemma handleDockerEvents_part0_Stopped_iff:
  "fst (handleDockerEvents_part0 env tr arrivals cfg) = Stopped
   \<longleftrightarrow> (\<exists>sig. RecvSignal sig \<in> set arrivals)"
proof (induction arrivals arbitrary: tr)
  case Nil
  then show ?case by simp
next
  case (Cons a rest)
  show ?case
  proof (cases a)
    case (RecvMsg event)
    then show ?thesis using Cons.IH by (simp add: select_case_part0_def)
  next
    case (RecvErr err)
    then show ?thesis using Cons.IH by (simp add: select_case_part0_def)
  next
    case (RecvSignal sig)
    then show ?thesis by (auto simp: select_case_part0_def)
  qed
qed

text \<open>
  C8. A pass through \<^verbatim>\<open>select\<close> that receives one of the two signals logs it and ends
  the loop (\<open>Stopped\<close>: the function returns, whatever arrivals are still to come). A
  pass that receives a message or a value of the error channel leaves the loop
  \<open>Running\<close>. Hence the loop ends on a sequence of arrivals if and only if a signal is
  among them. The same holds for the loop of the earlier variant.
\<close>

theorem signal_stops_loop:
  "select_case env g tr (RecvSignal sig) cfg
     = (Stopped, tr @ [LogLine (''Received signal '' @ signal_String sig @ '', shutting down'')])
   \<and> handleDockerEvents env g tr (RecvSignal sig # rest) cfg
     = (Stopped, tr @ [LogLine (''Received signal '' @ signal_String sig @ '', shutting down'')])
   \<and> fst (select_case env g tr (RecvMsg event) cfg) = Running
   \<and> fst (select_case env g tr (RecvErr err) cfg) = Running
   \<and> (fst (handleDockerEvents env g tr arrivals cfg) = Stopped)
       = (\<exists>s. RecvSignal s \<in> set arrivals)
   \<and> select_case_part0 env tr (RecvSignal sig) cfg
     = (Stopped, tr @ [LogLine (''Received signal '' @ signal_String sig @ '', shutting down'')])
   \<and> handleDockerEvents_part0 env tr (RecvSignal sig # rest) cfg
     = (Stopped, tr @ [LogLine (''Received signal '' @ signal_String sig @ '', shutting down'')])
   \<and> fst (select_case_part0 env tr (RecvMsg event) cfg) = Running
   \<and> fst (select_case_part0 env tr (RecvErr err) cfg) = Running
   \<and> (fst (handleDockerEvents_part0 env tr arrivals cfg) = Stopped)
       = (\<exists>s. RecvSignal s \<in> set arrivals)"
  by (simp add: handleDockerEvents_Stopped_iff handleDockerEvents_part0_Stopped_iff
      select_case_def select_case_part0_def)

theorem signal_stops_loop_witness:
  "handleDockerEvents (status_env 200) (populateActionMaps defaultConfig init) []
     [RecvErr (Some ''EOF''), RecvMsg (die_event ''network''), RecvSignal SIGTERM,
      RecvMsg (die_event ''container'')] defaultConfig
   = (Stopped, [LogLine ''Error receiving Docker event: EOF'',
                LogLine ''Received signal terminated, shutting down''])
   \<and> fst (handleDockerEvents (status_env 200) (populateActionMaps defaultConfig init) []
        [RecvErr None, RecvMsg (die_event ''network'')] defaultConfig) = Running
   \<and> select_case (status_env 200) (populateActionMaps defaultConfig init) []
        (RecvSignal SIGINT) defaultConfig
      = (Stopped, [LogLine ''Received signal interrupt, shutting down''])"
proof -
  have "fst (handleDockerEvents (status_env 200) (populateActionMaps defaultConfig init) []
        [RecvErr None, RecvMsg (die_event ''network'')] defaultConfig) \<noteq> Stopped"
    using signal_stops_loop [of "status_env 200" "populateActionMaps defaultConfig init" "[]"
        SIGINT defaultConfig "[]" "die_event ''network''" None
        "[RecvErr None, RecvMsg (die_event ''network'')]"]
    by simp
  then have r: "fst (handleDockerEvents (status_env 200) (populateActionMaps defaultConfig init) []
        [RecvErr None, RecvMsg (die_event ''network'')] defaultConfig) = Running"
    by (cases "fst (handleDockerEvents (status_env 200) (populateActionMaps defaultConfig init) []
        [RecvErr None, RecvMsg (die_event ''network'')] defaultConfig)") simp_all
  have s: "handleDockerEvents (status_env 200) (populateActionMaps defaultConfig init)
       [LogLine ''Error receiving Docker event: EOF'']
       (RecvSignal SIGTERM # [RecvMsg (die_event ''container'')]) defaultConfig
     = (Stopped, [LogLine ''Error receiving Docker event: EOF'',
                  LogLine ''Received signal terminated, shutting down''])"
    using signal_stops_loop [of "status_env 200" "populateActionMaps defaultConfig init"
        "[LogLine ''Error receiving Docker event: EOF'']" SIGTERM defaultConfig
        "[RecvMsg (die_event ''container'')]" "die_event ''network''" None "[]"]
    by simp
  show ?thesis
    using r s
      signal_stops_loop [of "status_env 200" "populateActionMaps defaultConfig init" "[]"
        SIGINT defaultConfig "[]" "die_event ''network''" None "[]"]
    by (simp add: select_case_def die_event_def ContainerEventType_def)
qed

subsection \<open>Decimal formatting is injective\<close>

lemma digits_nonempty: "digits n \<noteq> []"
  by (subst digits.simps) simp

lemma digit_char_inj:
  assumes "a < 10" "b < 10" "digit_char a = digit_char b"
  shows "a = b"
proof -
  have "distinct ''0123456789''" by simp
  moreover have "a < length ''0123456789''" "b < length ''0123456789''"
    using assms(1,2) by simp_all
  ultimately show ?thesis
    using assms(3) unfolding digit_char_def by (simp only: nth_eq_iff_index_eq)
qed

lemma digit_char_not_minus: "k < 10 \<Longrightarrow> digit_char k \<noteq> CHR ''-''"
proof -
  assume "k < 10"
  then have "k < length ''0123456789''" by simp
  then have "''0123456789'' ! k \<in> set ''0123456789''" by (rule nth_mem)
  moreover have "CHR ''-'' \<notin> set ''0123456789''" by simp
  ultimately show ?thesis unfolding digit_char_def by metis
qed

lemma digits_inj: "digits m = digits n \<Longrightarrow> m = n"
proof (induction m arbitrary: n rule: digits.induct)
  case (1 m)
  show ?case
  proof (cases "m < 10")
    case True
    then have dm: "digits m = [digit_char m]" by (subst digits.simps) simp
    show ?thesis
    proof (cases "n < 10")
      case n: True
      then have "digits n = [digit_char n]" by (subst digits.simps) simp
      with dm "1.prems" have "digit_char m = digit_char n" by simp
      with True n show ?thesis by (rule digit_char_inj)
    next
      case n: False
      then have "digits n = digits (n div 10) @ [digit_char (n mod 10)]"
        by (subst digits.simps) simp
      with dm "1.prems" digits_nonempty [of "n div 10"] show ?thesis
        by (cases "digits (n div 10)") auto
    qed
  next
    case False
    then have dm: "digits m = digits (m div 10) @ [digit_char (m mod 10)]"
      by (subst digits.simps) simp
    show ?thesis
    proof (cases "n < 10")
      case n: True
      then have "digits n = [digit_char n]" by (subst digits.simps) simp
      with dm "1.prems" digits_nonempty [of "m div 10"] show ?thesis
        by (cases "digits (m div 10)") auto
    next
      case n: False
      then have "digits n = digits (n div 10) @ [digit_char (n mod 10)]"
        by (subst digits.simps) simp
      with dm "1.prems" have a: "digits (m div 10) = digits (n div 10)"
        and b: "digit_char (m mod 10) = digit_char (n mod 10)" by simp_all
      from "1.IH" [OF False a] have q: "m div 10 = n div 10" .
      have r: "m mod 10 = n mod 10" by (rule digit_char_inj [OF _ _ b]) simp_all
      have "m = 10 * (m div 10) + m mod 10" by simp
      also have "\<dots> = 10 * (n div 10) + n mod 10" using q r by simp
      also have "\<dots> = n" by simp
      finally show ?thesis .
    qed
  qed
qed

lemma minus_notin_digits: "CHR ''-'' \<notin> set (digits n)"
proof (induction n rule: digits.induct)
  case (1 n)
  show ?case
  proof (cases "n < 10")
    case True
    then show ?thesis using digit_char_not_minus [of n] by (subst digits.simps) auto
  next
    case False
    then show ?thesis using "1.IH" digit_char_not_minus [of "n mod 10"]
      by (subst digits.simps) auto
  qed
qed

lemma fmt_d_inj: "fmt_d i = fmt_d j \<Longrightarrow> i = j"
proof -
  assume h: "fmt_d i = fmt_d j"
  have hd: "digits n \<noteq> CHR ''-'' # xs" for n xs
    using minus_notin_digits [of n] by (metis list.set_intros(1))
  show ?thesis
  proof (cases "i < 0"; cases "j < 0")
    assume "i < 0" "j < 0"
    with h have "digits (nat (- i)) = digits (nat (- j))" by (simp add: fmt_d_def)
    then have "nat (- i) = nat (- j)" by (rule digits_inj)
    with \<open>i < 0\<close> \<open>j < 0\<close> show ?thesis by simp
  next
    assume "i < 0" "\<not> j < 0"
    with h have "digits (nat j) = CHR ''-'' # digits (nat (- i))" by (simp add: fmt_d_def)
    with hd [of "nat j"] show ?thesis by blast
  next
    assume "\<not> i < 0" "j < 0"
    with h have "digits (nat i) = CHR ''-'' # digits (nat (- j))" by (simp add: fmt_d_def)
    with hd [of "nat i"] show ?thesis by blast
  next
    assume "\<not> i < 0" "\<not> j < 0"
    with h have "digits (nat i) = digits (nat j)" by (simp add: fmt_d_def)
    then have "nat i = nat j" by (rule digits_inj)
    with \<open>\<not> i < 0\<close> \<open>\<not> j < 0\<close> show ?thesis by simp
  qed
qed

lemma formattedTimeF_inj: "(formattedTimeF e1 = formattedTimeF e2) = (Time e1 = Time e2)"
  by (auto simp: formattedTimeF_def dest!: fmt_d_inj intro: signed_word_eqI)

lemma formattedTimeR_inj: "(formattedTimeR e1 = formattedTimeR e2) = (Time e1 = Time e2)"
  by (auto simp: formattedTimeR_def dest!: fmt_d_inj intro: signed_word_eqI)

lemma formattedTime_distinct: "formattedTimeF event \<noteq> formattedTimeR event"
  by (simp add: formattedTimeF_def formattedTimeR_def)

lemma ToUpper_error: "strings_ToUpper u ''error'' = ''ERROR''"
  unfolding strings_ToUpper_def by code_simp

lemma ToUpper_warning: "strings_ToUpper u ''warning'' = ''WARNING''"
  unfolding strings_ToUpper_def by code_simp

lemma ToUpper_info: "strings_ToUpper u ''info'' = ''INFO''"
  unfolding strings_ToUpper_def by code_simp

lemma fmt_d_sample_time: "fmt_d 1700000000 = ''1700000000''"
  by (simp add: fmt_d_def digits.simps digit_char_def)

subsection \<open>Rendering\<close>

text \<open>
  C5. The payload is a function of the event and the level: it has one embed, whose
  title is the fixed label followed by the level in upper case (\<open>ERROR\<close>,
  \<open>WARNING\<close>, \<open>INFO\<close> for the three levels of the classifier), whose description
  holds the \<open>name\<close> attribute of the actor, the action as it came, and the two
  renderings of the time, and whose colour is that of the level. The two renderings are
  built from the one \<^verbatim>\<open>Time\<close> value of the event, differ from each other for every
  event, and each determines that value. The environment enters only through the case
  tables of Unicode, and not at all for a level of ASCII bytes. The earlier variant
  builds the same embed but for the icon address.
\<close>

theorem notifyDiscord_payload_render:
  "length (embeds (notifyDiscord_payload env event level)) = 1
   \<and> title (hd (embeds (notifyDiscord_payload env event level)))
     = ''Docker Event Notification - '' @ strings_ToUpper (unicode_ToUpper env) level
   \<and> description (hd (embeds (notifyDiscord_payload env event level)))
     = (''**Container**: `'' @ index_string (Attributes (Actor event)) ''name''
        @ ''`\<newline>**Action**: `'' @ Action event
        @ ''`\<newline>**At**: '' @ formattedTimeF event @ '' ('' @ formattedTimeR event @ '')'')
   \<and> color (hd (embeds (notifyDiscord_payload env event level))) = getColor level
   \<and> embeds (notifyDiscord_payload_part0 env event level)
     = map (\<lambda>e. e\<lparr>author := (author e)\<lparr>icon_url := ''https://i.imgur.com/zlREvEQ.png''\<rparr>\<rparr>)
         (embeds (notifyDiscord_payload env event level))
   \<and> strings_ToUpper (unicode_ToUpper env) ''error'' = ''ERROR''
   \<and> strings_ToUpper (unicode_ToUpper env) ''warning'' = ''WARNING''
   \<and> strings_ToUpper (unicode_ToUpper env) ''info'' = ''INFO''
   \<and> formattedTimeF event = ''<t:'' @ fmt_d (sint (Time event)) @ '':F>''
   \<and> formattedTimeR event = ''<t:'' @ fmt_d (sint (Time event)) @ '':R>''
   \<and> formattedTimeF event \<noteq> formattedTimeR event
   \<and> (formattedTimeF event = formattedTimeF event') = (Time event = Time event')
   \<and> (formattedTimeR event = formattedTimeR event') = (Time event = Time event')
   \<and> (list_all (\<lambda>c. (of_char c :: nat) < 128) level \<or> unicode_ToUpper env = unicode_ToUpper env'
        \<longrightarrow> notifyDiscord_payload env event level = notifyDiscord_payload env' event level
          \<and> notifyDiscord_payload_part0 env event level
            = notifyDiscord_payload_part0 env' event level)"
proof -
  have pure: "notifyDiscord_payload env event level = notifyDiscord_payload env' event level
          \<and> notifyDiscord_payload_part0 env event level
            = notifyDiscord_payload_part0 env' event level"
    if "list_all (\<lambda>c. (of_char c :: nat) < 128) level \<or> unicode_ToUpper env = unicode_ToUpper env'"
    using that
    by (auto simp: notifyDiscord_payload_def notifyDiscord_payload_part0_def strings_ToUpper_def)
  have fields: "length (embeds (notifyDiscord_payload env event level)) = 1
   \<and> title (hd (embeds (notifyDiscord_payload env event level)))
     = ''Docker Event Notification - '' @ strings_ToUpper (unicode_ToUpper env) level
   \<and> description (hd (embeds (notifyDiscord_payload env event level)))
     = (''**Container**: `'' @ index_string (Attributes (Actor event)) ''name''
        @ ''`\<newline>**Action**: `'' @ Action event
        @ ''`\<newline>**At**: '' @ formattedTimeF event @ '' ('' @ formattedTimeR event @ '')'')
   \<and> color (hd (embeds (notifyDiscord_payload env event level))) = getColor level
   \<and> embeds (notifyDiscord_payload_part0 env event level)
     = map (\<lambda>e. e\<lparr>author := (author e)\<lparr>icon_url := ''https://i.imgur.com/zlREvEQ.png''\<rparr>\<rparr>)
         (embeds (notifyDiscord_payload env event level))"
    by (simp add: notifyDiscord_payload_def notifyDiscord_payload_part0_def)
  have times: "formattedTimeF event = ''<t:'' @ fmt_d (sint (Time event)) @ '':F>''
   \<and> formattedTimeR event = ''<t:'' @ fmt_d (sint (Time event)) @ '':R>''"
    by (simp add: formattedTimeF_def formattedTimeR_def)
  show ?thesis
    using pure fields times ToUpper_error ToUpper_warning ToUpper_info formattedTime_distinct
      formattedTimeF_inj formattedTimeR_inj
    by blast
qed

theorem notifyDiscord_payload_render_witness:
  "title (hd (embeds (notifyDiscord_payload first_run_env (die_event ''container'') ''error'')))
     = ''Docker Event Notification - ERROR''
   \<and> description (hd (embeds (notifyDiscord_payload first_run_env (die_event ''container'') ''error'')))
     = ''**Container**: `web-1`\<newline>**Action**: `die`\<newline>**At**: <t:1700000000:F> (<t:1700000000:R>)''
   \<and> color (hd (embeds (notifyDiscord_payload first_run_env (die_event ''container'') ''error'')))
     = 16711680
   \<and> notifyDiscord_payload first_run_env (die_event ''container'') ''error''
     = notifyDiscord_payload (status_env 500) (die_event ''container'') ''error''"
proof -
  have ascii: "list_all (\<lambda>c. (of_char c :: nat) < 128) ''error''" by simp
  have t: "fmt_d (sint (Time (die_event ''container''))) = ''1700000000''"
    by (simp add: die_event_def fmt_d_sample_time)
  have n: "index_string (Attributes (Actor (die_event ''container''))) ''name'' = ''web-1''"
    by (simp add: die_event_def index_string_def)
  have a: "Action (die_event ''container'') = ''die''"
    by (simp add: die_event_def)
  have p: "notifyDiscord_payload first_run_env (die_event ''container'') ''error''
      = notifyDiscord_payload (status_env 500) (die_event ''container'') ''error''"
    using notifyDiscord_payload_render [of first_run_env "die_event ''container''" "''error''"
        "die_event ''container''" "status_env 500"] ascii
    by blast
  have f: "title (hd (embeds (notifyDiscord_payload first_run_env (die_event ''container'') ''error'')))
     = ''Docker Event Notification - ERROR''
   \<and> description (hd (embeds (notifyDiscord_payload first_run_env (die_event ''container'') ''error'')))
     = ''**Container**: `web-1`\<newline>**Action**: `die`\<newline>**At**: <t:1700000000:F> (<t:1700000000:R>)''
   \<and> color (hd (embeds (notifyDiscord_payload first_run_env (die_event ''container'') ''error'')))
     = 16711680"
    using notifyDiscord_payload_render [of first_run_env "die_event ''container''" "''error''"
        "die_event ''container''" first_run_env]
    by (simp add: t n a getColor_def)
  show ?thesis
    using p f by blast
qed

subsection \<open>Loading the configuration\<close>

text \<open>
  C3 (counterexample). A path that does not exist does not always give the default
  configuration: \<^verbatim>\<open>loadConfig\<close> returns the default only when the write succeeds. In
  a working directory that refuses the write, \<^verbatim>\<open>os.Stat\<close> reports the path missing
  and \<^verbatim>\<open>loadConfig\<close> returns the error of the write and no configuration.
\<close>

theorem loadConfig_write_failure_counterexample:
  "os_IsNotExist (os_Stat read_only_env [] ''config.json'')
   \<and> fst (loadConfig read_only_env [] ''config.json'')
       = Inl ''failed to create default config: permission denied''
   \<and> fst (loadConfig read_only_env [] ''config.json'') \<noteq> Inr defaultConfig"
  by (simp add: loadConfig_def read_only_env_def first_run_env_def os_IsNotExist_def Let_def)

text \<open>
  C3, amended. \<^verbatim>\<open>loadConfig\<close> has six outcomes, decided by the answers of the file
  system and of \<^verbatim>\<open>json.Unmarshal\<close>. When \<^verbatim>\<open>os.Stat\<close> reports that the path does
  not exist, it writes the default configuration (error \<open>die\<close>, warning \<open>stop\<close>,
  info \<open>start\<close>) once, with mode 0644, and returns the default when the write
  succeeds and an error when the write fails. When \<^verbatim>\<open>os.Stat\<close> fails in another
  way, or the file cannot be read, it returns an error. When the file is read and
  \<^verbatim>\<open>json.Unmarshal\<close> decodes its bytes into a \<^verbatim>\<open>Config\<close>, it returns that
  \<^verbatim>\<open>Config\<close> as the decoder gave it; when \<^verbatim>\<open>json.Unmarshal\<close> rejects the bytes,
  whether they are malformed or well-formed JSON of another shape, it returns the error
  \<open>invalid JSON in config file\<close>. Which bytes the decoder accepts is the decoder's
  answer, a parameter here. Whenever the path is not reported missing, nothing is
  written: the file is left as it was.
\<close>

theorem loadConfig_outcomes:
  "(os_IsNotExist (os_Stat env tr f)
      \<and> os_WriteFile env
            (tr @ [OsStat f, LogLine ''Config file not found, creating default config.json''])
            f (default_file_bytes env) 420 = None
     \<longrightarrow> loadConfig env tr f
         = (Inr defaultConfig,
            tr @ [OsStat f, LogLine ''Config file not found, creating default config.json'',
                  OsWriteFile f (default_file_bytes env) 420]))
   \<and> (os_IsNotExist (os_Stat env tr f)
      \<and> os_WriteFile env
            (tr @ [OsStat f, LogLine ''Config file not found, creating default config.json''])
            f (default_file_bytes env) 420 = Some e
     \<longrightarrow> fst (loadConfig env tr f) = Inl (''failed to create default config: '' @ e))
   \<and> (os_Stat env tr f = Some oe \<and> \<not> not_exist oe
     \<longrightarrow> loadConfig env tr f
         = (Inl (''cannot stat config file: '' @ os_message oe), tr @ [OsStat f]))
   \<and> (os_Stat env tr f = None \<and> os_ReadFile env (tr @ [OsStat f]) f = Inl e
     \<longrightarrow> loadConfig env tr f
         = (Inl (''cannot read config file: '' @ e), tr @ [OsStat f, OsReadFile f]))
   \<and> (os_Stat env tr f = None \<and> os_ReadFile env (tr @ [OsStat f]) f = Inr bytes
      \<and> json_Unmarshal env bytes = Inr cfg
     \<longrightarrow> loadConfig env tr f = (Inr cfg, tr @ [OsStat f, OsReadFile f]))
   \<and> (os_Stat env tr f = None \<and> os_ReadFile env (tr @ [OsStat f]) f = Inr bytes
      \<and> json_Unmarshal env bytes = Inl e
     \<longrightarrow> loadConfig env tr f
         = (Inl (''invalid JSON in config file: '' @ e), tr @ [OsStat f, OsReadFile f]))
   \<and> (\<not> os_IsNotExist (os_Stat env tr f)
     \<longrightarrow> file_writes (snd (loadConfig env tr f)) = file_writes tr)
   \<and> (json_MarshalIndent env defaultConfig = Inr b \<longrightarrow> default_file_bytes env = b)
   \<and> Error defaultConfig = [''die''] \<and> Warning defaultConfig = [''stop'']
   \<and> Info defaultConfig = [''start'']"
  by (simp add: loadConfig_def os_IsNotExist_def Let_def default_file_bytes_def file_writes_def
      defaultConfig_def split: option.split sum.split)


theorem loadConfig_outcomes_witness:
  "loadConfig first_run_env [] ''config.json''
     = (Inr defaultConfig,
        [OsStat ''config.json'', LogLine ''Config file not found, creating default config.json'',
         OsWriteFile ''config.json'' ''{}'' 420])
   \<and> fst (loadConfig read_only_env [] ''config.json'')
     = Inl ''failed to create default config: permission denied''
   \<and> loadConfig stat_denied_env [] ''config.json''
     = (Inl ''cannot stat config file: permission denied'', [OsStat ''config.json''])
   \<and> loadConfig unreadable_file_env [] ''config.json''
     = (Inl ''cannot read config file: is a directory'',
        [OsStat ''config.json'', OsReadFile ''config.json''])
   \<and> loadConfig (existing_file_env (Inr (defaultConfig\<lparr>Webhook := []\<rparr>))) [] ''config.json''
     = (Inr (defaultConfig\<lparr>Webhook := []\<rparr>), [OsStat ''config.json'', OsReadFile ''config.json''])
   \<and> loadConfig (existing_file_env (Inl ''unexpected end of JSON input'')) [] ''config.json''
     = (Inl ''invalid JSON in config file: unexpected end of JSON input'',
        [OsStat ''config.json'', OsReadFile ''config.json''])
   \<and> file_writes (snd (loadConfig (existing_file_env (Inl ''unexpected end of JSON input'')) []
        ''config.json'')) = []"
proof -
  have b: "default_file_bytes first_run_env = ''{}''"
    by (simp add: default_file_bytes_def first_run_env_def)
  have b': "default_file_bytes read_only_env = ''{}''"
    by (simp add: default_file_bytes_def read_only_env_def first_run_env_def)
  have c1: "loadConfig first_run_env [] ''config.json''
     = (Inr defaultConfig,
        [OsStat ''config.json'', LogLine ''Config file not found, creating default config.json'',
         OsWriteFile ''config.json'' ''{}'' 420])"
    using loadConfig_outcomes [of first_run_env "[]" "''config.json''"]
    by (simp add: b first_run_env_def os_IsNotExist_def)
  have c2: "fst (loadConfig read_only_env [] ''config.json'')
     = Inl ''failed to create default config: permission denied''"
    using loadConfig_outcomes [of read_only_env "[]" "''config.json''" "''permission denied''"]
    by (simp add: b' read_only_env_def first_run_env_def os_IsNotExist_def)
  have c3: "loadConfig stat_denied_env [] ''config.json''
     = (Inl ''cannot stat config file: permission denied'', [OsStat ''config.json''])"
    using loadConfig_outcomes [of stat_denied_env "[]" "''config.json''" _
        "OsError False ''permission denied''"]
    by (simp add: stat_denied_env_def first_run_env_def)
  have c4: "loadConfig unreadable_file_env [] ''config.json''
     = (Inl ''cannot read config file: is a directory'',
        [OsStat ''config.json'', OsReadFile ''config.json''])"
    using loadConfig_outcomes [of unreadable_file_env "[]" "''config.json''" "''is a directory''"]
    by (simp add: unreadable_file_env_def first_run_env_def)
  have c5: "loadConfig (existing_file_env (Inr (defaultConfig\<lparr>Webhook := []\<rparr>))) [] ''config.json''
     = (Inr (defaultConfig\<lparr>Webhook := []\<rparr>), [OsStat ''config.json'', OsReadFile ''config.json''])"
    using loadConfig_outcomes [of "existing_file_env (Inr (defaultConfig\<lparr>Webhook := []\<rparr>))" "[]"
        "''config.json''" _ _ "''contents''" "defaultConfig\<lparr>Webhook := []\<rparr>"]
    by (simp add: existing_file_env_def first_run_env_def)
  have c6: "loadConfig (existing_file_env (Inl ''unexpected end of JSON input'')) [] ''config.json''
     = (Inl ''invalid JSON in config file: unexpected end of JSON input'',
        [OsStat ''config.json'', OsReadFile ''config.json''])
     \<and> file_writes (snd (loadConfig (existing_file_env (Inl ''unexpected end of JSON input'')) []
        ''config.json'')) = []"
    using loadConfig_outcomes [of "existing_file_env (Inl ''unexpected end of JSON input'')" "[]"
        "''config.json''" "''unexpected end of JSON input''" _ "''contents''"]
    by (simp add: existing_file_env_def first_run_env_def os_IsNotExist_def file_writes_def)
  show ?thesis
    using c1 c2 c3 c4 c5 c6 by blast
qed

end
